theory Spec2Isabelle
  imports Main "HOL-Library.Sublist"
begin

section \<open>JavaScript values inspected by the handlers\<close>

text \<open>
  The two handlers \<open>getTrack\<close> and \<open>getTracks\<close> of \<open>read.ts\<close> test values for
  truthiness (\<open>!track\<close>, \<open>a || b\<close>), for nullishness (\<open>a ?? b\<close>, \<open>a?.b\<close>) and for strict
  identity with \<open>null\<close> (\<open>t !== null\<close>). A value that may be missing is therefore one of
  \<open>undefined\<close>, \<open>null\<close> or a proper value.
\<close>

datatype 'a js = Undefined | Null | Val 'a

text \<open>
  A thrown value is either an \<open>Error\<close> object, of which the handlers read \<open>message\<close>, or
  any other value, of which they take \<open>String(error)\<close>; the second constructor carries
  that rendering.
\<close>

datatype thrown = ErrorObject string | NonError string

text \<open>\<open>error instanceof Error ? error.message : String(error)\<close>\<close>

fun error_text :: "thrown \<Rightarrow> string" where
  "error_text (ErrorObject message) = message"
| "error_text (NonError rendering) = rendering"

subsection \<open>Numbers in template literals\<close>

definition digit_char :: "nat \<Rightarrow> char" where
  "digit_char d = ''0123456789'' ! d"

fun show_nat :: "nat \<Rightarrow> string" where
  "show_nat n = (if n < 10 then [digit_char n] else show_nat (n div 10) @ [digit_char (n mod 10)])"

declare show_nat.simps [simp del]

text \<open>
  The decimal rendering of an integral number (the JavaScript rendering of integers of
  magnitude below \<open>10^21\<close>).
\<close>

definition show_int :: "int \<Rightarrow> string" where
  "show_int i = (if i < 0 then CHR ''-'' # show_nat (nat (- i)) else show_nat (nat i))"

text \<open>\<open>`${x}`\<close> for a number that may be missing.\<close>

fun template_number :: "int js \<Rightarrow> string" where
  "template_number Undefined = ''undefined''"
| "template_number Null = ''null''"
| "template_number (Val n) = show_int n"

text \<open>\<open>`${xs[i]}`\<close> for an array of strings: an index out of range reads \<open>undefined\<close>.\<close>

definition template_index :: "string list \<Rightarrow> nat \<Rightarrow> string" where
  "template_index xs i = (if i < length xs then xs ! i else ''undefined'')"

subsection \<open>Operators on possibly missing values\<close>

text \<open>\<open>a || d\<close> on strings: the empty string is falsy as well.\<close>

fun or_else :: "string js \<Rightarrow> string \<Rightarrow> string" where
  "or_else Undefined d = d"
| "or_else Null d = d"
| "or_else (Val s) d = (if s = [] then d else s)"

text \<open>\<open>a ?? d\<close>\<close>

fun nullish_else :: "'a js \<Rightarrow> 'a \<Rightarrow> 'a" where
  "nullish_else Undefined d = d"
| "nullish_else Null d = d"
| "nullish_else (Val a) d = a"

text \<open>\<open>Array.prototype.join\<close> on an array of strings.\<close>

fun array_join :: "string \<Rightarrow> string list \<Rightarrow> string" where
  "array_join sep [] = []"
| "array_join sep [x] = x"
| "array_join sep (x # y # ys) = x @ sep @ array_join sep (y # ys)"

text \<open>\<open>Array.prototype.map\<close> with the callback's index argument, started at \<open>i\<close>.\<close>

fun map_index :: "('a \<Rightarrow> nat \<Rightarrow> 'b) \<Rightarrow> nat \<Rightarrow> 'a list \<Rightarrow> 'b list" where
  "map_index f i [] = []"
| "map_index f i (x # xs) = f x i # map_index f (Suc i) xs"

section \<open>Data model (types.ts)\<close>

record SpotifyArtist =
  artist_id :: string
  artist_name :: string

record SpotifyAlbum =
  album_id :: string
  album_name :: string
  album_artists :: "SpotifyArtist list"

record ExternalIds =
  isrc :: "string js"

record SpotifyTrackMetadata =
  track_id :: string
  track_name :: string
  artists :: "SpotifyArtist list"
  album :: SpotifyAlbum
  duration_ms :: int
  explicit :: bool
  popularity :: "int js"
  preview_url :: "string js"
  external_ids :: "ExternalIds js"
  external_urls_spotify :: string

text \<open>\<open>track.external_ids?.isrc\<close>\<close>

fun optional_isrc :: "ExternalIds js \<Rightarrow> string js" where
  "optional_isrc Undefined = Undefined"
| "optional_isrc Null = Undefined"
| "optional_isrc (Val e) = isrc e"

text \<open>The value every handler returns: \<open>{ content: [{ type: 'text', text }] }\<close>.\<close>

record content_item =
  item_type :: string
  item_text :: string

record response =
  content :: "content_item list"

definition text_response :: "string \<Rightarrow> response" where
  "text_response s = \<lparr>content = [\<lparr>item_type = ''text'', item_text = s\<rparr>]\<rparr>"

section \<open>The remote collaborator\<close>

text \<open>
  \<open>formatDuration\<close> and \<open>handleSpotifyRequest\<close> are imported from \<open>utils.ts\<close>. The
  handlers are parametrised by them: \<open>fd\<close> stands for \<open>formatDuration\<close>, and a
  \<open>remote\<close> gives what \<open>handleSpotifyRequest\<close> around \<open>spotifyApi.tracks.get\<close>
  produces for a single identifier and for a list of identifiers: a thrown value
  (\<open>Inl\<close>) or the value the call resolves to (\<open>Inr\<close>). Every such request is recorded
  in a log, so that the model shows which requests a handler makes.
\<close>

datatype call = GetTrack string | GetSeveralTracks "string list"

record remote =
  resolveOne :: "string \<Rightarrow> thrown + SpotifyTrackMetadata js"
  resolveMany :: "string list \<Rightarrow> thrown + SpotifyTrackMetadata js list js"

definition request_one ::
  "remote \<Rightarrow> string \<Rightarrow> call list \<Rightarrow> (thrown + SpotifyTrackMetadata js) \<times> call list" where
  "request_one r trackId log = (resolveOne r trackId, log @ [GetTrack trackId])"

definition request_many ::
  "remote \<Rightarrow> string list \<Rightarrow> call list
     \<Rightarrow> (thrown + SpotifyTrackMetadata js list js) \<times> call list" where
  "request_many r trackIds log = (resolveMany r trackIds, log @ [GetSeveralTracks trackIds])"

text \<open>
  Modelled from the spec: \<open>formatDuration\<close> of \<open>utils.ts\<close> is not among the sources.
  Specification, section 4.4: the duration in milliseconds gives the whole seconds, then
  \<open>minutes:seconds\<close>, the seconds padded with a zero to width 2, the minutes not padded.
  It is used only to run the handlers on concrete inputs; every theorem below holds for
  any formatter.
\<close>

definition formatDuration :: "int \<Rightarrow> string" where
  "formatDuration ms =
     (let total = nat (ms div 1000); minutes = total div 60; seconds = total mod 60
      in show_nat minutes @ '':'' @ (if seconds < 10 then ''0'' else '''') @ show_nat seconds)"

section \<open>get\_track\<close>

definition artist_names :: "SpotifyTrackMetadata \<Rightarrow> string" where
  "artist_names track = array_join '', '' (map artist_name (artists track))"

text \<open>The template of the found case, in the order in which the source concatenates it.\<close>

definition getTrack_text :: "(int \<Rightarrow> string) \<Rightarrow> SpotifyTrackMetadata \<Rightarrow> string" where
  "getTrack_text fd track =
     (let artists = artist_names track;
          duration = fd (duration_ms track);
          explicit = (if explicit track then ''Yes'' else ''No'');
          preview = or_else (preview_url track) ''Not available'';
          isrc = or_else (optional_isrc (external_ids track)) ''N/A'';
          popularity = nullish_else (popularity track) 0
      in ''# Track Metadata\<newline>\<newline>'' @
         ''**Track**: '' @ [CHR 0x22] @ track_name track @ [CHR 0x22] @ ''\<newline>'' @
         ''**Artists**: '' @ artists @ ''\<newline>'' @
         ''**Album**: '' @ album_name (album track) @ ''\<newline>'' @
         ''**Duration**: '' @ duration @ ''\<newline>'' @
         ''**Popularity**: '' @ show_int popularity @ ''/100\<newline>'' @
         ''**Explicit**: '' @ explicit @ ''\<newline>'' @
         ''**ISRC**: '' @ isrc @ ''\<newline>'' @
         ''**Preview**: '' @ preview @ ''\<newline>'' @
         ''**Spotify URL**: '' @ external_urls_spotify track @ ''\<newline>'' @
         ''**ID**: '' @ track_id track)"

text \<open>The body of the \<open>try\<close> block: \<open>Inl\<close> is a value thrown out of it.\<close>

definition getTrack_try ::
  "(int \<Rightarrow> string) \<Rightarrow> remote \<Rightarrow> string \<Rightarrow> call list \<Rightarrow> (thrown + response) \<times> call list" where
  "getTrack_try fd r trackId log =
     (case request_one r trackId log of
        (Inl error, log') \<Rightarrow> (Inl error, log')
      | (Inr Undefined, log') \<Rightarrow>
          (Inr (text_response (''Track with ID '' @ [CHR 0x22] @ trackId @ [CHR 0x22] @ '' not found'')), log')
      | (Inr Null, log') \<Rightarrow>
          (Inr (text_response (''Track with ID '' @ [CHR 0x22] @ trackId @ [CHR 0x22] @ '' not found'')), log')
      | (Inr (Val track), log') \<Rightarrow> (Inr (text_response (getTrack_text fd track)), log'))"

text \<open>The handler: the \<open>try\<close> block and its \<open>catch\<close>.\<close>

definition getTrack ::
  "(int \<Rightarrow> string) \<Rightarrow> remote \<Rightarrow> string \<Rightarrow> call list \<Rightarrow> (thrown + response) \<times> call list" where
  "getTrack fd r trackId log =
     (case getTrack_try fd r trackId log of
        (Inl error, log') \<Rightarrow>
          (Inr (text_response (''Error retrieving track metadata: '' @ error_text error)), log')
      | (Inr result, log') \<Rightarrow> (Inr result, log'))"

section \<open>get\_tracks\<close>

text \<open>The callback of \<open>tracks.map((track, index) => ...)\<close>.\<close>

definition format_slot ::
  "(int \<Rightarrow> string) \<Rightarrow> string list \<Rightarrow> SpotifyTrackMetadata js \<Rightarrow> nat \<Rightarrow> string" where
  "format_slot fd trackIds slot index =
     (case slot of
        Val track \<Rightarrow>
          (let artists = artist_names track;
               duration = fd (duration_ms track)
           in ''\<newline>## '' @ show_nat (index + 1) @ ''. '' @ [CHR 0x22] @ track_name track @ [CHR 0x22] @ ''\<newline>'' @
              ''**Artists**: '' @ artists @ ''\<newline>'' @
              ''**Album**: '' @ album_name (album track) @ ''\<newline>'' @
              ''**Duration**: '' @ duration @ ''\<newline>'' @
              ''**Popularity**: '' @ template_number (popularity track) @ ''/100\<newline>'' @
              ''**ID**: '' @ track_id track)
      | _ \<Rightarrow> ''\<newline>[Invalid ID]: '' @ template_index trackIds index @ '' - Track not found'')"

definition formattedTracks ::
  "(int \<Rightarrow> string) \<Rightarrow> string list \<Rightarrow> SpotifyTrackMetadata js list \<Rightarrow> string list" where
  "formattedTracks fd trackIds tracks = map_index (format_slot fd trackIds) 0 tracks"

text \<open>\<open>tracks.filter((t) => t !== null).length\<close>\<close>

definition validCount :: "SpotifyTrackMetadata js list \<Rightarrow> nat" where
  "validCount tracks = length (filter (\<lambda>t. t \<noteq> Null) tracks)"

definition getTracks_text ::
  "(int \<Rightarrow> string) \<Rightarrow> string list \<Rightarrow> SpotifyTrackMetadata js list \<Rightarrow> string" where
  "getTracks_text fd trackIds tracks =
     ''# Track Metadata ('' @ show_nat (validCount tracks) @ '' of '' @
     show_nat (length trackIds) @ '' tracks)\<newline>'' @
     array_join ''\<newline>'' (formattedTracks fd trackIds tracks)"

definition getTracks_try ::
  "(int \<Rightarrow> string) \<Rightarrow> remote \<Rightarrow> string list \<Rightarrow> call list \<Rightarrow> (thrown + response) \<times> call list" where
  "getTracks_try fd r trackIds log =
     (case request_many r trackIds log of
        (Inl error, log') \<Rightarrow> (Inl error, log')
      | (Inr Undefined, log') \<Rightarrow> (Inr (text_response ''No tracks found for the provided IDs''), log')
      | (Inr Null, log') \<Rightarrow> (Inr (text_response ''No tracks found for the provided IDs''), log')
      | (Inr (Val tracks), log') \<Rightarrow>
          (if length tracks = 0
           then (Inr (text_response ''No tracks found for the provided IDs''), log')
           else (Inr (text_response (getTracks_text fd trackIds tracks)), log')))"

definition getTracks ::
  "(int \<Rightarrow> string) \<Rightarrow> remote \<Rightarrow> string list \<Rightarrow> call list \<Rightarrow> (thrown + response) \<times> call list" where
  "getTracks fd r trackIds log =
     (if length trackIds = 0
      then (Inr (text_response ''No track IDs provided''), log)
      else (case getTracks_try fd r trackIds log of
              (Inl error, log') \<Rightarrow>
                (Inr (text_response (''Error retrieving track metadata: '' @ error_text error)), log')
            | (Inr result, log') \<Rightarrow> (Inr result, log')))"

section \<open>Parameter validation of get\_tracks\<close>

text \<open>
  The arguments of a tool arrive as JSON values and are checked against the tool's
  \<open>schema\<close> before the handler is called.
\<close>

datatype json = JNull | JBoolean bool | JNumber int | JString string | JArray "json list"

datatype issue_code = invalid_type | too_big

text \<open>
  Modelled from the spec: the schema combinators \<open>z.string()\<close> and \<open>z.array(...).max(n)\<close>
  belong to the validation library and are not among the sources. Specification,
  sections 4.1 and 8, and the unit test of the schema: a value that is not an array of
  strings is refused, and an array longer than the bound is refused with an issue of
  kind "too large" (\<open>too_big\<close>), reported first.
\<close>

fun parse_string :: "json \<Rightarrow> issue_code list + string" where
  "parse_string (JString s) = Inr s"
| "parse_string _ = Inl [invalid_type]"

fun issues_of :: "issue_code list + 'a \<Rightarrow> issue_code list" where
  "issues_of (Inl issues) = issues"
| "issues_of (Inr _) = []"

fun parse_array ::
  "(json \<Rightarrow> issue_code list + 'a) \<Rightarrow> nat option \<Rightarrow> json \<Rightarrow> issue_code list + 'a list" where
  "parse_array element bound (JArray xs) =
     (let size_issues = (case bound of
                           None \<Rightarrow> []
                         | Some m \<Rightarrow> if length xs > m then [too_big] else []);
          results = map element xs;
          issues = size_issues @ concat (map issues_of results)
      in if issues = [] then Inr (map projr results) else Inl issues)"
| "parse_array element bound _ = Inl [invalid_type]"

text \<open>\<open>trackIds: z.array(z.string()).max(50)\<close>\<close>

definition schema_trackIds :: "json \<Rightarrow> issue_code list + string list" where
  "schema_trackIds = parse_array parse_string (Some 50)"

text \<open>
  Modelled from the spec: the registration of the tools with the host (\<open>index.ts\<close>) is
  not among the sources. Specification, sections 4.1 and 7: a failure of the schema is
  surfaced as a structured validation failure, distinct from the text a handler renders,
  and is decided before the handler and any remote call.
\<close>

datatype invocation = Rejected "issue_code list" | Handled "thrown + response"

definition invoke_get_tracks ::
  "(int \<Rightarrow> string) \<Rightarrow> remote \<Rightarrow> json \<Rightarrow> call list \<Rightarrow> invocation \<times> call list" where
  "invoke_get_tracks fd r input log =
     (case schema_trackIds input of
        Inl issues \<Rightarrow> (Rejected issues, log)
      | Inr trackIds \<Rightarrow>
          (case getTracks fd r trackIds log of (result, log') \<Rightarrow> (Handled result, log')))"

section \<open>Reading the rendered text\<close>

text \<open>\<open>String.prototype.toLowerCase\<close> on ASCII text.\<close>

definition lower_char :: "char \<Rightarrow> char" where
  "lower_char c =
     (let n = (of_char c :: nat) in if 65 \<le> n \<and> n \<le> 90 then char_of (n + 32) else c)"

definition toLowerCase :: "string \<Rightarrow> string" where
  "toLowerCase s = map lower_char s"

text \<open>\<open>result.content[0].text\<close> of what a handler returned.\<close>

fun response_text :: "thrown + response \<Rightarrow> string" where
  "response_text (Inr result) = (case content result of [] \<Rightarrow> [] | item # _ \<Rightarrow> item_text item)"
| "response_text (Inl _) = []"

section \<open>Sample data\<close>

definition sample_track :: SpotifyTrackMetadata where
  "sample_track =
     \<lparr>track_id = ''a'', track_name = ''Song'',
      artists = [\<lparr>artist_id = ''x'', artist_name = ''Ann''\<rparr>,
                 \<lparr>artist_id = ''y'', artist_name = ''Bob''\<rparr>],
      album = \<lparr>album_id = ''l'', album_name = ''Album'', album_artists = []\<rparr>,
      duration_ms = 225000, explicit = False, popularity = Val 85,
      preview_url = Null, external_ids = Undefined,
      external_urls_spotify = ''https://open.spotify.com/track/a''\<rparr>"

text \<open>
  A collaborator that knows the track \<open>a\<close>, fails on every request that names
  \<open>boom\<close>, and reports every other identifier as absent.
\<close>

definition sample_remote :: remote where
  "sample_remote =
     \<lparr>resolveOne = (\<lambda>i. if i = ''boom'' then Inl (ErrorObject ''Bad OAuth request'')
                         else if i = ''a'' then Inr (Val sample_track) else Inr Null),
      resolveMany = (\<lambda>ids. if ''boom'' \<in> set ids then Inl (ErrorObject ''Bad OAuth request'')
                           else Inr (Val (map (\<lambda>i. if i = ''a'' then Val sample_track else Null) ids)))\<rparr>"

text \<open>
  A collaborator whose records lack \<open>popularity\<close> in the single lookup, and which
  answers an identifier it does not know with \<open>undefined\<close> in place of \<open>null\<close> in the
  batch lookup.
\<close>

definition undefined_remote :: remote where
  "undefined_remote =
     \<lparr>resolveOne = (\<lambda>i. Inr (Val (sample_track\<lparr>popularity := Undefined\<rparr>))),
      resolveMany = (\<lambda>ids. Inr (Val (map (\<lambda>i. if i = ''a'' then Val sample_track else Undefined) ids)))\<rparr>"

section \<open>Auxiliary facts\<close>

lemma length_map_index: "length (map_index f k xs) = length xs"
  by (induction xs arbitrary: k) auto

lemma nth_map_index: "i < length xs \<Longrightarrow> map_index f k xs ! i = f (xs ! i) (k + i)"
  by (induction xs arbitrary: k i) (auto simp: nth_Cons split: nat.splits)

lemma sublist_chain: "sublist a b \<Longrightarrow> sublist b c \<Longrightarrow> sublist a c"
  unfolding sublist_def by (metis append.assoc)

lemma sublist_array_join: "i < length bs \<Longrightarrow> sublist (bs ! i) (array_join sep bs)"
proof (induction sep bs arbitrary: i rule: array_join.induct)
  case (1 sep)
  then show ?case by simp
next
  case (2 sep x)
  then show ?case by simp
next
  case (3 sep x y ys)
  show ?case
  proof (cases i)
    case 0
    then show ?thesis by simp
  next
    case (Suc j)
    with 3 have "sublist ((y # ys) ! j) (array_join sep (y # ys))" by simp
    then have "sublist ((y # ys) ! j) ((x @ sep) @ array_join sep (y # ys))"
      using sublist_append by blast
    with Suc show ?thesis by simp
  qed
qed

lemma show_nat_small:
  "show_nat 1 = ''1''" "show_nat (Suc 0) = ''1''" "show_nat 2 = ''2''"
  "show_nat (Suc (Suc 0)) = ''2''"
  by code_simp+

lemma show_int_0: "show_int 0 = ''0''"
  by (simp add: show_int_def show_nat.simps digit_char_def)

lemma show_int_85: "show_int 85 = ''85''"
  by code_simp

lemma formatDuration_sample: "formatDuration 225000 = ''3:45''"
  by code_simp

lemma getTracks_rendered:
  "trackIds \<noteq> [] \<Longrightarrow> resolveMany r trackIds = Inr (Val tracks) \<Longrightarrow> tracks \<noteq> [] \<Longrightarrow>
   getTracks fd r trackIds log =
     (Inr (text_response (getTracks_text fd trackIds tracks)), log @ [GetSeveralTracks trackIds])"
  by (simp add: getTracks_def getTracks_try_def request_many_def)

lemma getTrack_rendered:
  "resolveOne r trackId = Inr (Val track) \<Longrightarrow>
   getTrack fd r trackId log =
     (Inr (text_response (getTrack_text fd track)), log @ [GetTrack trackId])"
  by (simp add: getTrack_def getTrack_try_def request_one_def)

lemma block_in_text:
  assumes "i < length tracks"
  shows "sublist (formattedTracks fd trackIds tracks ! i) (getTracks_text fd trackIds tracks)"
proof -
  have "i < length (formattedTracks fd trackIds tracks)"
    using assms by (simp add: formattedTracks_def length_map_index)
  then have "sublist (formattedTracks fd trackIds tracks ! i)
                (array_join ''\<newline>'' (formattedTracks fd trackIds tracks))"
    by (rule sublist_array_join)
  then show ?thesis
    unfolding getTracks_text_def sublist_def by (metis append.assoc)
qed

lemma found_block_shape:
  "\<exists>rest. format_slot fd trackIds (Val track) i =
      ''\<newline>'' @ (''## '' @ show_nat (i + 1) @ ''.'') @ '' '' @ rest @ ''**ID**: '' @ track_id track"
  by (simp add: format_slot_def Let_def)

lemma absent_block_shape:
  "i < length trackIds \<Longrightarrow> slot = Null \<or> slot = Undefined \<Longrightarrow>
   format_slot fd trackIds slot i =
     ''\<newline>'' @ (''[Invalid ID]: '' @ trackIds ! i) @ '' - Track not found''"
  by (auto simp: format_slot_def template_index_def)

lemma found_block_iff:
  "prefix ''\<newline>## '' (format_slot fd trackIds slot k) \<longleftrightarrow> (\<exists>track. slot = Val track)"
  by (cases slot) (simp_all add: format_slot_def Let_def)

lemma count_found_blocks:
  "length (filter (prefix ''\<newline>## '') (map_index (format_slot fd trackIds) k tracks)) =
   length (filter (\<lambda>slot. \<exists>track. slot = Val track) tracks)"
  by (induction tracks arbitrary: k) (simp_all add: found_block_iff)

lemma validCount_split:
  "validCount tracks =
   length (filter (\<lambda>slot. \<exists>track. slot = Val track) tracks) + count_list tracks Undefined"
proof (induction tracks)
  case Nil
  then show ?case by (simp add: validCount_def)
next
  case (Cons slot tracks)
  then show ?case by (cases slot) (simp_all add: validCount_def)
qed

lemma parse_strings_issues: "concat (map issues_of (map parse_string (map JString ids))) = []"
  by (induction ids) simp_all

lemma parse_strings_values: "map projr (map parse_string (map JString ids)) = ids"
  by (induction ids) simp_all

lemma schema_trackIds_strings:
  "schema_trackIds (JArray (map JString ids)) = (if length ids > 50 then Inl [too_big] else Inr ids)"
proof -
  have "parse_array parse_string (Some 50) (JArray (map JString ids)) =
      (if length ids > 50 then Inl [too_big] else Inr ids)"
    unfolding parse_array.simps Let_def parse_strings_issues parse_strings_values
    by simp
  then show ?thesis by (simp only: schema_trackIds_def)
qed

section \<open>The single lookup\<close>

text \<open>
  Claim C5. For every identifier that resolves to a record, the text of get\_track is the
  heading \<open># Track Metadata\<close>, an empty line, and then exactly ten labelled lines in the
  fixed order Track, Artists, Album, Duration, Popularity, Explicit, ISRC, Preview,
  Spotify URL, ID, joined by line breaks. Popularity is rendered as \<open><n>/100\<close> (with 0
  for a missing value), Explicit as \<open>Yes\<close> or \<open>No\<close>, ISRC falls back to \<open>N/A\<close> and
  Preview to \<open>Not available\<close> when the value is absent (or the empty string).
\<close>

theorem getTrack_found_fields:
  assumes "resolveOne r trackId = Inr (Val track)"
  shows "fst (getTrack fd r trackId log) =
    Inr (text_response (''# Track Metadata\<newline>\<newline>'' @ array_join ''\<newline>''
      [''**Track**: '' @ [CHR 0x22] @ track_name track @ [CHR 0x22],
       ''**Artists**: '' @ array_join '', '' (map artist_name (artists track)),
       ''**Album**: '' @ album_name (album track),
       ''**Duration**: '' @ fd (duration_ms track),
       ''**Popularity**: '' @ show_int (case popularity track of Val n \<Rightarrow> n | _ \<Rightarrow> 0) @ ''/100'',
       ''**Explicit**: '' @ (if explicit track then ''Yes'' else ''No''),
       ''**ISRC**: '' @
          (case external_ids track of
             Val e \<Rightarrow> (case isrc e of Val s \<Rightarrow> if s = [] then ''N/A'' else s | _ \<Rightarrow> ''N/A'')
           | _ \<Rightarrow> ''N/A''),
       ''**Preview**: '' @
          (case preview_url track of
             Val s \<Rightarrow> if s = [] then ''Not available'' else s
           | _ \<Rightarrow> ''Not available''),
       ''**Spotify URL**: '' @ external_urls_spotify track,
       ''**ID**: '' @ track_id track]))"
proof -
  have p: "nullish_else (popularity track) 0 = (case popularity track of Val n \<Rightarrow> n | _ \<Rightarrow> 0)"
    by (cases "popularity track") simp_all
  have i: "or_else (optional_isrc (external_ids track)) ''N/A'' =
      (case external_ids track of
         Val e \<Rightarrow> (case isrc e of Val s \<Rightarrow> if s = [] then ''N/A'' else s | _ \<Rightarrow> ''N/A'')
       | _ \<Rightarrow> ''N/A'')"
    by (cases "external_ids track") (auto split: js.splits)
  have v: "or_else (preview_url track) ''Not available'' =
      (case preview_url track of
         Val s \<Rightarrow> if s = [] then ''Not available'' else s
       | _ \<Rightarrow> ''Not available'')"
    by (cases "preview_url track") simp_all
  have "getTrack_text fd track = ''# Track Metadata\<newline>\<newline>'' @ array_join ''\<newline>''
      [''**Track**: '' @ [CHR 0x22] @ track_name track @ [CHR 0x22],
       ''**Artists**: '' @ array_join '', '' (map artist_name (artists track)),
       ''**Album**: '' @ album_name (album track),
       ''**Duration**: '' @ fd (duration_ms track),
       ''**Popularity**: '' @ show_int (nullish_else (popularity track) 0) @ ''/100'',
       ''**Explicit**: '' @ (if explicit track then ''Yes'' else ''No''),
       ''**ISRC**: '' @ or_else (optional_isrc (external_ids track)) ''N/A'',
       ''**Preview**: '' @ or_else (preview_url track) ''Not available'',
       ''**Spotify URL**: '' @ external_urls_spotify track,
       ''**ID**: '' @ track_id track]"
    by (simp add: getTrack_text_def artist_names_def Let_def)
  then show ?thesis
    unfolding p i v using getTrack_rendered [OF assms, of fd log] by simp
qed

theorem getTrack_found_fields_witness:
  "fst (getTrack formatDuration sample_remote ''a'' []) =
    Inr (text_response (
      ''# Track Metadata\<newline>\<newline>'' @
      ''**Track**: '' @ [CHR 0x22] @ ''Song'' @ [CHR 0x22] @ ''\<newline>'' @
      ''**Artists**: Ann, Bob\<newline>'' @
      ''**Album**: Album\<newline>'' @
      ''**Duration**: 3:45\<newline>'' @
      ''**Popularity**: 85/100\<newline>'' @
      ''**Explicit**: No\<newline>'' @
      ''**ISRC**: N/A\<newline>'' @
      ''**Preview**: Not available\<newline>'' @
      ''**Spotify URL**: https://open.spotify.com/track/a\<newline>'' @
      ''**ID**: a''))"
proof -
  have "resolveOne sample_remote ''a'' = Inr (Val sample_track)"
    by (simp add: sample_remote_def)
  from getTrack_found_fields [OF this, of formatDuration "[]"] show ?thesis
    by (simp add: sample_track_def show_int_85 formatDuration_sample)
qed

text \<open>
  Claim C6. For every identifier, when the single-item resolution returns \<open>null\<close>, the
  handler of get\_track returns the text \<open>Track with ID "<id>" not found\<close> with the input
  identifier in it. The text is returned from the \<open>try\<close> block as an ordinary response
  (it is not the text of the \<open>catch\<close> branch), after the one request for that identifier.
\<close>

theorem getTrack_not_found:
  "resolveOne r trackId = Inr Null \<Longrightarrow>
   getTrack fd r trackId log =
     (Inr (text_response (''Track with ID '' @ [CHR 0x22] @ trackId @ [CHR 0x22] @ '' not found'')),
      log @ [GetTrack trackId])
   \<and> getTrack_try fd r trackId log = getTrack fd r trackId log
   \<and> \<not> prefix ''Error retrieving track metadata: ''
          (''Track with ID '' @ [CHR 0x22] @ trackId @ [CHR 0x22] @ '' not found'')"
  by (simp add: getTrack_def getTrack_try_def request_one_def)

theorem getTrack_not_found_witness:
  "getTrack formatDuration sample_remote ''zz'' [] =
     (Inr (text_response (''Track with ID '' @ [CHR 0x22] @ ''zz'' @ [CHR 0x22] @ '' not found'')),
      [GetTrack ''zz''])"
  using getTrack_not_found [of sample_remote "''zz''" formatDuration "[]"]
  by (simp add: sample_remote_def)

text \<open>
  Claim C10. For every record resolved by get\_track whose \<open>popularity\<close> is \<open>undefined\<close>,
  the rendered line is \<open>**Popularity**: 0/100\<close>: the single-item renderer defaults the
  missing value to 0. The batch renderer of get\_tracks interpolates the field with no
  default, so the same record gives \<open>**Popularity**: undefined/100\<close> there.
\<close>

theorem popularity_default:
  assumes "popularity track = Undefined"
  shows "(resolveOne r trackId = Inr (Val track) \<longrightarrow>
            fst (getTrack fd r trackId log) =
              Inr (text_response (
                ''# Track Metadata\<newline>\<newline>'' @
                ''**Track**: '' @ [CHR 0x22] @ track_name track @ [CHR 0x22] @ ''\<newline>'' @
                ''**Artists**: '' @ artist_names track @ ''\<newline>'' @
                ''**Album**: '' @ album_name (album track) @ ''\<newline>'' @
                ''**Duration**: '' @ fd (duration_ms track) @ ''\<newline>'' @
                ''**Popularity**: 0/100\<newline>'' @
                ''**Explicit**: '' @ (if explicit track then ''Yes'' else ''No'') @ ''\<newline>'' @
                ''**ISRC**: '' @ or_else (optional_isrc (external_ids track)) ''N/A'' @ ''\<newline>'' @
                ''**Preview**: '' @ or_else (preview_url track) ''Not available'' @ ''\<newline>'' @
                ''**Spotify URL**: '' @ external_urls_spotify track @ ''\<newline>'' @
                ''**ID**: '' @ track_id track)))
         \<and> format_slot fd trackIds (Val track) index =
              ''\<newline>## '' @ show_nat (index + 1) @ ''. '' @ [CHR 0x22] @ track_name track @ [CHR 0x22] @ ''\<newline>'' @
              ''**Artists**: '' @ artist_names track @ ''\<newline>'' @
              ''**Album**: '' @ album_name (album track) @ ''\<newline>'' @
              ''**Duration**: '' @ fd (duration_ms track) @ ''\<newline>'' @
              ''**Popularity**: undefined/100\<newline>'' @
              ''**ID**: '' @ track_id track"
proof (intro conjI impI)
  assume "resolveOne r trackId = Inr (Val track)"
  from getTrack_rendered [OF this, of fd log] assms
  show "fst (getTrack fd r trackId log) =
              Inr (text_response (
                ''# Track Metadata\<newline>\<newline>'' @
                ''**Track**: '' @ [CHR 0x22] @ track_name track @ [CHR 0x22] @ ''\<newline>'' @
                ''**Artists**: '' @ artist_names track @ ''\<newline>'' @
                ''**Album**: '' @ album_name (album track) @ ''\<newline>'' @
                ''**Duration**: '' @ fd (duration_ms track) @ ''\<newline>'' @
                ''**Popularity**: 0/100\<newline>'' @
                ''**Explicit**: '' @ (if explicit track then ''Yes'' else ''No'') @ ''\<newline>'' @
                ''**ISRC**: '' @ or_else (optional_isrc (external_ids track)) ''N/A'' @ ''\<newline>'' @
                ''**Preview**: '' @ or_else (preview_url track) ''Not available'' @ ''\<newline>'' @
                ''**Spotify URL**: '' @ external_urls_spotify track @ ''\<newline>'' @
                ''**ID**: '' @ track_id track))"
    by (simp add: getTrack_text_def Let_def show_int_0)
next
  from assms show "format_slot fd trackIds (Val track) index =
              ''\<newline>## '' @ show_nat (index + 1) @ ''. '' @ [CHR 0x22] @ track_name track @ [CHR 0x22] @ ''\<newline>'' @
              ''**Artists**: '' @ artist_names track @ ''\<newline>'' @
              ''**Album**: '' @ album_name (album track) @ ''\<newline>'' @
              ''**Duration**: '' @ fd (duration_ms track) @ ''\<newline>'' @
              ''**Popularity**: undefined/100\<newline>'' @
              ''**ID**: '' @ track_id track"
    by (simp add: format_slot_def Let_def)
qed

theorem popularity_default_witness:
  "fst (getTrack formatDuration undefined_remote ''a'' []) =
     Inr (text_response (
       ''# Track Metadata\<newline>\<newline>'' @
       ''**Track**: '' @ [CHR 0x22] @ ''Song'' @ [CHR 0x22] @ ''\<newline>'' @
       ''**Artists**: Ann, Bob\<newline>'' @
       ''**Album**: Album\<newline>'' @
       ''**Duration**: 3:45\<newline>'' @
       ''**Popularity**: 0/100\<newline>'' @
       ''**Explicit**: No\<newline>'' @
       ''**ISRC**: N/A\<newline>'' @
       ''**Preview**: Not available\<newline>'' @
       ''**Spotify URL**: https://open.spotify.com/track/a\<newline>'' @
       ''**ID**: a''))
   \<and> format_slot formatDuration [''a''] (Val (sample_track\<lparr>popularity := Undefined\<rparr>)) 0 =
       ''\<newline>## 1. '' @ [CHR 0x22] @ ''Song'' @ [CHR 0x22] @ ''\<newline>'' @
       ''**Artists**: Ann, Bob\<newline>'' @
       ''**Album**: Album\<newline>'' @
       ''**Duration**: 3:45\<newline>'' @
       ''**Popularity**: undefined/100\<newline>'' @
       ''**ID**: a''"
proof -
  have "popularity (sample_track\<lparr>popularity := Undefined\<rparr>) = Undefined" by simp
  from popularity_default [OF this, of undefined_remote "''a''" formatDuration "[]" "[''a'']" 0]
  show ?thesis
    by (simp add: undefined_remote_def sample_track_def artist_names_def formatDuration_sample
          show_nat_small)
qed

section \<open>Failures of the remote call\<close>

text \<open>
  Claim C3. For every identifier and every list of identifiers, and whatever the
  collaborator does (it returns a record, \<open>null\<close>, \<open>undefined\<close>, an empty or a non-empty
  sequence, or it throws), both handlers return a response with one text item and throw
  nothing (the result is \<open>Inr\<close>). When the remote call throws, the text is
  \<open>Error retrieving track metadata: \<close> followed by the message of the thrown error
  (\<open>error_text\<close>: the \<open>message\<close> of an \<open>Error\<close>, the string rendering of any other
  thrown value), for the single lookup and for the whole batch alike. The batch handler
  calls the collaborator only for a non-empty list.
\<close>

theorem handlers_always_respond:
  "(\<exists>text. fst (getTrack fd r trackId log) = Inr (text_response text))
   \<and> (\<exists>text. fst (getTracks fd r trackIds log) = Inr (text_response text))
   \<and> (\<forall>e. resolveOne r trackId = Inl e \<longrightarrow>
          fst (getTrack fd r trackId log) =
            Inr (text_response (''Error retrieving track metadata: '' @ error_text e)))
   \<and> (\<forall>e. trackIds \<noteq> [] \<and> resolveMany r trackIds = Inl e \<longrightarrow>
          fst (getTracks fd r trackIds log) =
            Inr (text_response (''Error retrieving track metadata: '' @ error_text e)))"
proof (intro conjI allI impI)
  show "\<exists>text. fst (getTrack fd r trackId log) = Inr (text_response text)"
    by (cases "resolveOne r trackId")
       (auto simp: getTrack_def getTrack_try_def request_one_def split: js.splits)
  show "\<exists>text. fst (getTracks fd r trackIds log) = Inr (text_response text)"
    by (cases "resolveMany r trackIds")
       (auto simp: getTracks_def getTracks_try_def request_many_def split: js.splits)
next
  fix e assume "resolveOne r trackId = Inl e"
  then show "fst (getTrack fd r trackId log) =
      Inr (text_response (''Error retrieving track metadata: '' @ error_text e))"
    by (simp add: getTrack_def getTrack_try_def request_one_def)
next
  fix e assume "trackIds \<noteq> [] \<and> resolveMany r trackIds = Inl e"
  then show "fst (getTracks fd r trackIds log) =
      Inr (text_response (''Error retrieving track metadata: '' @ error_text e))"
    by (simp add: getTracks_def getTracks_try_def request_many_def)
qed

theorem handlers_always_respond_witness:
  "fst (getTrack formatDuration sample_remote ''boom'' []) =
     Inr (text_response ''Error retrieving track metadata: Bad OAuth request'')
   \<and> fst (getTracks formatDuration sample_remote [''a'', ''boom''] []) =
     Inr (text_response ''Error retrieving track metadata: Bad OAuth request'')"
  using handlers_always_respond
    [of formatDuration sample_remote "''boom''" "[]" "[''a'', ''boom'']"]
  by (simp add: sample_remote_def)

section \<open>The batch lookup\<close>

text \<open>
  Claim C8. For the empty list of identifiers the handler of get\_tracks returns the fixed
  text \<open>No track IDs provided\<close>, which contains \<open>no track\<close> when read in lower case, and
  it leaves the log of remote requests as it was, whatever the collaborator is.
\<close>

theorem getTracks_empty:
  "getTracks fd r [] log = (Inr (text_response ''No track IDs provided''), log)
   \<and> sublist ''no track'' (toLowerCase ''No track IDs provided'')"
proof -
  have "toLowerCase ''No track IDs provided'' = [] @ ''no track'' @ '' ids provided''"
    by code_simp
  then have "sublist ''no track'' (toLowerCase ''No track IDs provided'')"
    unfolding sublist_def by blast
  then show ?thesis by (simp add: getTracks_def)
qed

text \<open>
  Claim C7. For every non-empty list of identifiers whose remote call returns a non-empty
  array, the response text begins with \<open># Track Metadata (<validCount> of <total> tracks)\<close>,
  where \<open>validCount\<close> is the number of positions of the returned array that are not \<open>null\<close>
  and \<open>total\<close> is the length of the list of identifiers.
\<close>

theorem getTracks_header:
  assumes "trackIds \<noteq> []" and "resolveMany r trackIds = Inr (Val tracks)" and "tracks \<noteq> []"
  shows "\<exists>text. fst (getTracks fd r trackIds log) = Inr (text_response text)
           \<and> prefix (''# Track Metadata ('' @
                       show_nat (card {i. i < length tracks \<and> tracks ! i \<noteq> Null}) @
                       '' of '' @ show_nat (length trackIds) @ '' tracks)'') text"
proof -
  have "validCount tracks = card {i. i < length tracks \<and> tracks ! i \<noteq> Null}"
    by (simp add: validCount_def length_filter_conv_card)
  then have "prefix (''# Track Metadata ('' @
                       show_nat (card {i. i < length tracks \<and> tracks ! i \<noteq> Null}) @
                       '' of '' @ show_nat (length trackIds) @ '' tracks)'')
                    (getTracks_text fd trackIds tracks)"
    by (simp add: getTracks_text_def prefix_def)
  with getTracks_rendered [OF assms, of fd log] show ?thesis
    by (intro exI [of _ "getTracks_text fd trackIds tracks"]) simp
qed

theorem getTracks_header_witness:
  "\<exists>text. fst (getTracks formatDuration sample_remote [''a'', ''zz''] []) = Inr (text_response text)
          \<and> prefix ''# Track Metadata (1 of 2 tracks)'' text"
proof -
  have c: "card {i. i < length [Val sample_track, Null] \<and> [Val sample_track, Null] ! i \<noteq> Null} = 1"
    using length_filter_conv_card [of "\<lambda>t. t \<noteq> Null" "[Val sample_track, Null]"] by simp
  have s: "show_nat 1 = ''1''" "show_nat (length [''a'', ''zz'']) = ''2''" by code_simp+
  have "[''a'', ''zz''] \<noteq> []" by simp
  moreover have "resolveMany sample_remote [''a'', ''zz''] = Inr (Val [Val sample_track, Null])"
    by (simp add: sample_remote_def)
  moreover have "[Val sample_track, Null] \<noteq> []" by simp
  ultimately show ?thesis
    using getTracks_header
      [of "[''a'', ''zz'']" sample_remote "[Val sample_track, Null]" formatDuration "[]"]
    unfolding c s by simp
qed

text \<open>
  Claim C1. For every non-empty list of identifiers (of any length, so also of length 1
  to 50) and every remote result array of the same length, the text of get\_tracks is the
  header line followed by the blocks joined by line breaks, one block per position and in
  the order of the input: the block at position \<open>i\<close> (counted from 1) is the found block
  numbered \<open>## i.\<close> with the fields and the identifier of record \<open>i\<close> when that position
  holds a record, and the line \<open>[Invalid ID]: ids[i] - Track not found\<close> when it holds
  \<open>null\<close> (or \<open>undefined\<close>). No position is moved or left out.
\<close>

theorem getTracks_blocks_in_order:
  assumes "trackIds \<noteq> []" and "resolveMany r trackIds = Inr (Val tracks)"
    and "length tracks = length trackIds"
  shows "\<exists>blocks.
     fst (getTracks fd r trackIds log) =
       Inr (text_response (''# Track Metadata ('' @ show_nat (validCount tracks) @ '' of '' @
              show_nat (length trackIds) @ '' tracks)\<newline>'' @ array_join ''\<newline>'' blocks))
     \<and> length blocks = length trackIds
     \<and> (\<forall>i < length trackIds.
          blocks ! i =
            (case tracks ! i of
               Val track \<Rightarrow>
                 ''\<newline>## '' @ show_nat (i + 1) @ ''. '' @ [CHR 0x22] @ track_name track @ [CHR 0x22] @ ''\<newline>'' @
                 ''**Artists**: '' @ array_join '', '' (map artist_name (artists track)) @ ''\<newline>'' @
                 ''**Album**: '' @ album_name (album track) @ ''\<newline>'' @
                 ''**Duration**: '' @ fd (duration_ms track) @ ''\<newline>'' @
                 ''**Popularity**: '' @ template_number (popularity track) @ ''/100\<newline>'' @
                 ''**ID**: '' @ track_id track
             | _ \<Rightarrow> ''\<newline>[Invalid ID]: '' @ trackIds ! i @ '' - Track not found''))"
proof (intro exI [of _ "formattedTracks fd trackIds tracks"] conjI allI impI)
  from assms have "tracks \<noteq> []" by auto
  from getTracks_rendered [OF assms(1,2) this, of fd log]
  show "fst (getTracks fd r trackIds log) =
       Inr (text_response (''# Track Metadata ('' @ show_nat (validCount tracks) @ '' of '' @
              show_nat (length trackIds) @ '' tracks)\<newline>'' @
              array_join ''\<newline>'' (formattedTracks fd trackIds tracks)))"
    by (simp add: getTracks_text_def)
next
  show "length (formattedTracks fd trackIds tracks) = length trackIds"
    by (simp add: formattedTracks_def length_map_index assms(3))
next
  fix i assume i: "i < length trackIds"
  then have "formattedTracks fd trackIds tracks ! i = format_slot fd trackIds (tracks ! i) i"
    by (simp add: formattedTracks_def nth_map_index assms(3))
  with i show "formattedTracks fd trackIds tracks ! i =
            (case tracks ! i of
               Val track \<Rightarrow>
                 ''\<newline>## '' @ show_nat (i + 1) @ ''. '' @ [CHR 0x22] @ track_name track @ [CHR 0x22] @ ''\<newline>'' @
                 ''**Artists**: '' @ array_join '', '' (map artist_name (artists track)) @ ''\<newline>'' @
                 ''**Album**: '' @ album_name (album track) @ ''\<newline>'' @
                 ''**Duration**: '' @ fd (duration_ms track) @ ''\<newline>'' @
                 ''**Popularity**: '' @ template_number (popularity track) @ ''/100\<newline>'' @
                 ''**ID**: '' @ track_id track
             | _ \<Rightarrow> ''\<newline>[Invalid ID]: '' @ trackIds ! i @ '' - Track not found'')"
    by (simp add: format_slot_def template_index_def artist_names_def Let_def split: js.splits)
qed

theorem getTracks_blocks_in_order_witness:
  "\<exists>blocks.
     fst (getTracks formatDuration sample_remote [''a'', ''zz''] []) =
       Inr (text_response (''# Track Metadata (1 of 2 tracks)\<newline>'' @ array_join ''\<newline>'' blocks))
     \<and> length blocks = 2
     \<and> blocks ! 0 =
          ''\<newline>## 1. '' @ [CHR 0x22] @ ''Song'' @ [CHR 0x22] @ ''\<newline>'' @
          ''**Artists**: Ann, Bob\<newline>'' @
          ''**Album**: Album\<newline>'' @
          ''**Duration**: 3:45\<newline>'' @
          ''**Popularity**: 85/100\<newline>'' @
          ''**ID**: a''
     \<and> blocks ! 1 = ''\<newline>[Invalid ID]: zz - Track not found''"
proof -
  have "[''a'', ''zz''] \<noteq> []" by simp
  moreover have "resolveMany sample_remote [''a'', ''zz''] = Inr (Val [Val sample_track, Null])"
    by (simp add: sample_remote_def)
  moreover have "length [Val sample_track, Null] = length [''a'', ''zz'']" by simp
  ultimately obtain blocks where
    t: "fst (getTracks formatDuration sample_remote [''a'', ''zz''] []) =
       Inr (text_response (''# Track Metadata ('' @ show_nat (validCount [Val sample_track, Null]) @
              '' of '' @ show_nat (length [''a'', ''zz'']) @ '' tracks)\<newline>'' @
              array_join ''\<newline>'' blocks))"
    and l: "length blocks = length [''a'', ''zz'']"
    and n: "\<And>i. i < length [''a'', ''zz''] \<Longrightarrow> blocks ! i =
            (case [Val sample_track, Null] ! i of
               Val track \<Rightarrow>
                 ''\<newline>## '' @ show_nat (i + 1) @ ''. '' @ [CHR 0x22] @ track_name track @ [CHR 0x22] @ ''\<newline>'' @
                 ''**Artists**: '' @ array_join '', '' (map artist_name (artists track)) @ ''\<newline>'' @
                 ''**Album**: '' @ album_name (album track) @ ''\<newline>'' @
                 ''**Duration**: '' @ formatDuration (duration_ms track) @ ''\<newline>'' @
                 ''**Popularity**: '' @ template_number (popularity track) @ ''/100\<newline>'' @
                 ''**ID**: '' @ track_id track
             | _ \<Rightarrow> ''\<newline>[Invalid ID]: '' @ [''a'', ''zz''] ! i @ '' - Track not found'')"
    using getTracks_blocks_in_order
      [of "[''a'', ''zz'']" sample_remote "[Val sample_track, Null]" formatDuration "[]"]
    by blast
  from n [of 0] have b0: "blocks ! 0 =
          ''\<newline>## 1. '' @ [CHR 0x22] @ ''Song'' @ [CHR 0x22] @ ''\<newline>'' @
          ''**Artists**: Ann, Bob\<newline>'' @
          ''**Album**: Album\<newline>'' @
          ''**Duration**: 3:45\<newline>'' @
          ''**Popularity**: 85/100\<newline>'' @
          ''**ID**: a''"
    by (simp add: sample_track_def formatDuration_sample show_int_85 show_nat_small)
  from n [of 1] have b1: "blocks ! 1 = ''\<newline>[Invalid ID]: zz - Track not found''"
    by simp
  from t have t': "fst (getTracks formatDuration sample_remote [''a'', ''zz''] []) =
       Inr (text_response (''# Track Metadata (1 of 2 tracks)\<newline>'' @ array_join ''\<newline>'' blocks))"
    by (simp add: validCount_def show_nat_small)
  from t' l b0 b1 show ?thesis by (intro exI [of _ blocks]) simp
qed

text \<open>
  Claim C9. A position is rendered as absent when it is falsy (\<open>null\<close> or \<open>undefined\<close>),
  but it is left out of \<open>validCount\<close> only when it is \<open>null\<close>: the count in the header is
  the number of found blocks (the blocks that begin with the \<open>##\<close> marker) plus the
  number of \<open>undefined\<close> positions. Hence, when every absent position of the remote result
  is exactly \<open>null\<close>, the count in the header equals the number of found blocks in the
  body, and a position that is \<open>undefined\<close> makes the header count larger.
\<close>

theorem validCount_and_found_blocks:
  assumes "trackIds \<noteq> []" and "resolveMany r trackIds = Inr (Val tracks)" and "tracks \<noteq> []"
  shows "fst (getTracks fd r trackIds log) =
       Inr (text_response (''# Track Metadata ('' @ show_nat (validCount tracks) @ '' of '' @
              show_nat (length trackIds) @ '' tracks)\<newline>'' @
              array_join ''\<newline>'' (formattedTracks fd trackIds tracks)))
     \<and> validCount tracks =
         length (filter (prefix ''\<newline>## '') (formattedTracks fd trackIds tracks)) +
         count_list tracks Undefined
     \<and> (Undefined \<notin> set tracks \<longrightarrow>
          validCount tracks =
            length (filter (prefix ''\<newline>## '') (formattedTracks fd trackIds tracks)))
     \<and> (Undefined \<in> set tracks \<longrightarrow>
          validCount tracks >
            length (filter (prefix ''\<newline>## '') (formattedTracks fd trackIds tracks)))"
proof -
  have t: "fst (getTracks fd r trackIds log) =
       Inr (text_response (''# Track Metadata ('' @ show_nat (validCount tracks) @ '' of '' @
              show_nat (length trackIds) @ '' tracks)\<newline>'' @
              array_join ''\<newline>'' (formattedTracks fd trackIds tracks)))"
    using getTracks_rendered [OF assms, of fd log] by (simp add: getTracks_text_def)
  have e: "validCount tracks =
         length (filter (prefix ''\<newline>## '') (formattedTracks fd trackIds tracks)) +
         count_list tracks Undefined"
    unfolding formattedTracks_def count_found_blocks by (rule validCount_split)
  have z: "Undefined \<notin> set tracks \<Longrightarrow> count_list tracks Undefined = 0"
    by (simp add: count_list_0_iff)
  have p: "Undefined \<in> set tracks \<Longrightarrow> count_list tracks Undefined > 0"
    using count_list_0_iff [of tracks Undefined] by auto
  from t e z p show ?thesis by auto
qed

theorem validCount_and_found_blocks_witness:
  "validCount [Val sample_track, Null] = 1
   \<and> length (filter (prefix ''\<newline>## '')
        (formattedTracks formatDuration [''a'', ''zz''] [Val sample_track, Null])) = 1
   \<and> validCount [Val sample_track, Undefined] = 2
   \<and> length (filter (prefix ''\<newline>## '')
        (formattedTracks formatDuration [''a'', ''zz''] [Val sample_track, Undefined])) < 2"
proof -
  have "resolveMany sample_remote [''a'', ''zz''] = Inr (Val [Val sample_track, Null])"
    by (simp add: sample_remote_def)
  from validCount_and_found_blocks [OF _ this, of formatDuration "[]"]
  have 1: "validCount [Val sample_track, Null] =
     length (filter (prefix ''\<newline>## '')
        (formattedTracks formatDuration [''a'', ''zz''] [Val sample_track, Null]))"
    by simp
  have "resolveMany undefined_remote [''a'', ''zz''] = Inr (Val [Val sample_track, Undefined])"
    by (simp add: undefined_remote_def)
  from validCount_and_found_blocks [OF _ this, of formatDuration "[]"]
  have 2: "validCount [Val sample_track, Undefined] >
     length (filter (prefix ''\<newline>## '')
        (formattedTracks formatDuration [''a'', ''zz''] [Val sample_track, Undefined]))"
    by simp
  have "validCount [Val sample_track, Null] = 1" "validCount [Val sample_track, Undefined] = 2"
    by (simp_all add: validCount_def)
  with 1 2 show ?thesis by simp
qed

text \<open>
  Claim C2, as stated, read the way the repository's own test of mixed lists reads the
  markers (\<open>text.includes(`## ${i + 1}.`)\<close> and \<open>text.includes(`[Invalid ID]: ${trackId}`)\<close>):
  every input identifier has exactly one of the two markers in the response text. It fails
  for the list \<open>a\<close>, \<open>ab\<close> where \<open>a\<close> resolves to a record that echoes it and \<open>ab\<close> does
  not resolve: the text holds the found marker \<open>## 1.\<close> of the first identifier and, inside
  the line of the second one, also the marker \<open>[Invalid ID]: a\<close>.
\<close>

theorem markers_not_exclusive:
  "resolveMany sample_remote [''a'', ''ab''] = Inr (Val [Val sample_track, Null])
   \<and> track_id sample_track = ''a''
   \<and> \<not> (sublist ''## 1.''
            (response_text (fst (getTracks formatDuration sample_remote [''a'', ''ab''] [])))
          \<noteq>
          sublist (''[Invalid ID]: '' @ ''a'')
            (response_text (fst (getTracks formatDuration sample_remote [''a'', ''ab''] []))))"
  by code_simp

text \<open>
  Claim C2, amended. For every non-empty list of identifiers and every remote result of
  the same length in which each position is \<open>null\<close> or a record that echoes its input
  identifier, and for every position \<open>i\<close>: the identifier is part of the response text;
  it is rendered in the block of its own position, which is part of the text and begins
  with exactly one of the two markers, the found marker \<open>## i. \<close> exactly when the
  position holds a record and the marker \<open>[Invalid ID]: ids[i]\<close> exactly when it holds
  \<open>null\<close>; and at least one of the two markers of the identifier occurs in the text.
\<close>

theorem identifiers_accounted_for:
  assumes "trackIds \<noteq> []" and "resolveMany r trackIds = Inr (Val tracks)"
    and "length tracks = length trackIds"
    and "\<forall>k < length trackIds.
           tracks ! k = Null \<or> (\<exists>track. tracks ! k = Val track \<and> track_id track = trackIds ! k)"
    and "i < length trackIds"
  shows "\<exists>text block.
     fst (getTracks fd r trackIds log) = Inr (text_response text)
     \<and> block = formattedTracks fd trackIds tracks ! i
     \<and> sublist (trackIds ! i) block \<and> sublist block text
     \<and> sublist (trackIds ! i) text
     \<and> (sublist (''## '' @ show_nat (i + 1) @ ''.'') text
          \<or> sublist (''[Invalid ID]: '' @ trackIds ! i) text)
     \<and> ((\<exists>track. tracks ! i = Val track) = prefix (''\<newline>## '' @ show_nat (i + 1) @ ''. '') block)
     \<and> ((tracks ! i = Null) = prefix (''\<newline>[Invalid ID]: '' @ trackIds ! i) block)
     \<and> (prefix (''\<newline>## '' @ show_nat (i + 1) @ ''. '') block
          \<noteq> prefix (''\<newline>[Invalid ID]: '' @ trackIds ! i) block)"
proof -
  define out where "out = getTracks_text fd trackIds tracks"
  define block where "block = formattedTracks fd trackIds tracks ! i"
  from assms have ne: "tracks \<noteq> []" and it: "i < length tracks" by auto
  have r: "fst (getTracks fd r trackIds log) = Inr (text_response out)"
    using getTracks_rendered [OF assms(1,2) ne, of fd log] by (simp add: out_def)
  have b: "block = format_slot fd trackIds (tracks ! i) i"
    using it by (simp add: block_def formattedTracks_def nth_map_index)
  have bt: "sublist block out"
    unfolding block_def out_def using it by (rule block_in_text)
  from assms(4,5) have
    "tracks ! i = Null \<or> (\<exists>track. tracks ! i = Val track \<and> track_id track = trackIds ! i)"
    by blast
  then have "sublist (trackIds ! i) block
     \<and> (sublist (''## '' @ show_nat (i + 1) @ ''.'') block
          \<or> sublist (''[Invalid ID]: '' @ trackIds ! i) block)
     \<and> ((\<exists>track. tracks ! i = Val track) = prefix (''\<newline>## '' @ show_nat (i + 1) @ ''. '') block)
     \<and> ((tracks ! i = Null) = prefix (''\<newline>[Invalid ID]: '' @ trackIds ! i) block)
     \<and> (prefix (''\<newline>## '' @ show_nat (i + 1) @ ''. '') block
          \<noteq> prefix (''\<newline>[Invalid ID]: '' @ trackIds ! i) block)"
  proof
    assume n: "tracks ! i = Null"
    with b assms(5) have s: "block =
        ''\<newline>'' @ (''[Invalid ID]: '' @ trackIds ! i) @ '' - Track not found''"
      by (simp add: absent_block_shape)
    have "sublist (''[Invalid ID]: '' @ trackIds ! i) block"
      unfolding s by (rule sublist_appendI)
    moreover have "sublist (trackIds ! i) block"
      unfolding s sublist_def by (metis append.assoc)
    moreover have "prefix (''\<newline>[Invalid ID]: '' @ trackIds ! i) block"
      unfolding s by (simp add: prefix_def)
    moreover have "\<not> prefix (''\<newline>## '' @ show_nat (i + 1) @ ''. '') block"
      unfolding s by simp
    ultimately show ?thesis using n by simp
  next
    assume "\<exists>track. tracks ! i = Val track \<and> track_id track = trackIds ! i"
    then obtain track where v: "tracks ! i = Val track" and e: "track_id track = trackIds ! i"
      by blast
    from found_block_shape [of fd trackIds track i] b v e obtain rest where s: "block =
        ''\<newline>'' @ (''## '' @ show_nat (i + 1) @ ''.'') @ '' '' @ rest @ ''**ID**: '' @ trackIds ! i"
      by auto
    have "sublist (''## '' @ show_nat (i + 1) @ ''.'') block"
      unfolding s by (rule sublist_appendI)
    moreover have "sublist (trackIds ! i) block"
      unfolding s sublist_def by (metis append.assoc append_Nil2)
    moreover have "prefix (''\<newline>## '' @ show_nat (i + 1) @ ''. '') block"
      unfolding s by (simp add: prefix_def)
    moreover have "\<not> prefix (''\<newline>[Invalid ID]: '' @ trackIds ! i) block"
      unfolding s by simp
    ultimately show ?thesis using v by simp
  qed
  then have k: "sublist (trackIds ! i) block"
    and m: "sublist (''## '' @ show_nat (i + 1) @ ''.'') block
          \<or> sublist (''[Invalid ID]: '' @ trackIds ! i) block"
    and f: "(\<exists>track. tracks ! i = Val track) = prefix (''\<newline>## '' @ show_nat (i + 1) @ ''. '') block"
    and a: "(tracks ! i = Null) = prefix (''\<newline>[Invalid ID]: '' @ trackIds ! i) block"
    and x: "prefix (''\<newline>## '' @ show_nat (i + 1) @ ''. '') block
          \<noteq> prefix (''\<newline>[Invalid ID]: '' @ trackIds ! i) block"
    by blast+
  have c1: "sublist (trackIds ! i) out"
    using k bt by (rule sublist_chain)
  have c2: "sublist (''## '' @ show_nat (i + 1) @ ''.'') out
          \<or> sublist (''[Invalid ID]: '' @ trackIds ! i) out"
    using m bt sublist_chain by blast
  show ?thesis
    using r block_def k bt c1 c2 f a x
    by (intro exI [of _ out] exI [of _ block] conjI)
qed

theorem identifiers_accounted_for_witness:
  "\<exists>text block.
     fst (getTracks formatDuration sample_remote [''a'', ''zz''] []) = Inr (text_response text)
     \<and> sublist ''a'' text \<and> sublist block text
     \<and> (sublist ''## 1.'' text \<or> sublist ''[Invalid ID]: a'' text)
     \<and> prefix ''\<newline>## 1. '' block"
proof -
  have "[''a'', ''zz''] \<noteq> []" by simp
  moreover have "resolveMany sample_remote [''a'', ''zz''] = Inr (Val [Val sample_track, Null])"
    by (simp add: sample_remote_def)
  moreover have "length [Val sample_track, Null] = length [''a'', ''zz'']" by simp
  moreover have "\<forall>k < length [''a'', ''zz''].
           [Val sample_track, Null] ! k = Null
           \<or> (\<exists>track. [Val sample_track, Null] ! k = Val track \<and> track_id track = [''a'', ''zz''] ! k)"
    by (auto simp: less_Suc_eq sample_track_def)
  moreover have "0 < length [''a'', ''zz'']" by simp
  ultimately obtain out block where
    "fst (getTracks formatDuration sample_remote [''a'', ''zz''] []) = Inr (text_response out)"
    "sublist ([''a'', ''zz''] ! 0) out" "sublist block out"
    "sublist (''## '' @ show_nat (0 + 1) @ ''.'') out
       \<or> sublist (''[Invalid ID]: '' @ [''a'', ''zz''] ! 0) out"
    "(\<exists>track. [Val sample_track, Null] ! 0 = Val track)
       = prefix (''\<newline>## '' @ show_nat (0 + 1) @ ''. '') block"
    using identifiers_accounted_for
      [of "[''a'', ''zz'']" sample_remote "[Val sample_track, Null]" 0 formatDuration "[]"]
    by blast
  then show ?thesis
    by (intro exI [of _ out] exI [of _ block]) (simp add: show_nat_small)
qed

section \<open>The bound on the batch size\<close>

text \<open>
  Claim C4. For every array of more than 50 track identifiers the parameter schema of
  get\_tracks refuses the input with the issue "too large" (\<open>too_big\<close>), and the
  invocation ends there: the handler does not run and the log of remote requests is
  unchanged. An array of exactly 50 identifiers passes the schema and reaches the
  handler.
\<close>

theorem schema_bounds_batch:
  "(length ids > 50 \<longrightarrow>
      schema_trackIds (JArray (map JString ids)) = Inl [too_big]
      \<and> invoke_get_tracks fd r (JArray (map JString ids)) log = (Rejected [too_big], log))
   \<and> (length ids = 50 \<longrightarrow>
      schema_trackIds (JArray (map JString ids)) = Inr ids
      \<and> invoke_get_tracks fd r (JArray (map JString ids)) log =
          (Handled (fst (getTracks fd r ids log)), snd (getTracks fd r ids log)))"
  by (simp add: invoke_get_tracks_def schema_trackIds_strings split: prod.splits)

theorem schema_bounds_batch_witness:
  "invoke_get_tracks formatDuration sample_remote
      (JArray (map JString (replicate 51 ''11dFghVXANMlKmJXsNCbNl''))) [] = (Rejected [too_big], [])
   \<and> schema_trackIds (JArray (map JString (replicate 50 ''11dFghVXANMlKmJXsNCbNl''))) =
       Inr (replicate 50 ''11dFghVXANMlKmJXsNCbNl'')"
  using schema_bounds_batch
      [of "replicate 51 ''11dFghVXANMlKmJXsNCbNl''" formatDuration sample_remote "[]"]
    schema_bounds_batch
      [of "replicate 50 ''11dFghVXANMlKmJXsNCbNl''" formatDuration sample_remote "[]"]
  by simp

end
